theory Spec2Isabelle
  imports Main
begin

section \<open>Values and errors\<close>

text \<open>
  The errors that the frame manager of \<^verbatim>\<open>src/firefox/FrameManager.ts\<close> can raise or
  pass on. \<open>Error\<close> is JavaScript's plain \<^verbatim>\<open>Error\<close> with its message, \<open>TimeoutError\<close>
  the class imported from \<^verbatim>\<open>../Errors\<close> with its message, and \<open>TypeError\<close> what the
  engine raises when a property of \<^verbatim>\<open>undefined\<close> is read (its message is the engine's
  and is not modelled).
\<close>

datatype js_error = Error string | TimeoutError string | TypeError

text \<open>
  Objects live in a store and are named by their address. A response object is opaque
  here: only its identity is passed through.
\<close>

type_synonym frame_ref = nat
type_synonym context_ref = nat
type_synonym response = nat

section \<open>normalizeWaitUntil\<close>

text \<open>
  The argument \<^verbatim>\<open>waitUntil\<close> is either one token or an array of tokens
  (\<^verbatim>\<open>string | Array<string>\<close>); \<^verbatim>\<open>Array.isArray\<close> tells them apart.
\<close>

datatype waitUntil_arg = Token string | Tokens "string list"

text \<open>
  The \<^verbatim>\<open>for\<close> loop of \<^verbatim>\<open>normalizeWaitUntil\<close>: the first condition that is neither
  \<^verbatim>\<open>'load'\<close> nor \<^verbatim>\<open>'domcontentloaded'\<close> throws.
\<close>

fun check_conditions :: "string list \<Rightarrow> js_error option" where
  "check_conditions [] = None"
| "check_conditions (condition # rest) =
     (if condition \<noteq> ''load'' \<and> condition \<noteq> ''domcontentloaded''
      then Some (Error (''Unknown waitUntil condition: '' @ condition))
      else check_conditions rest)"

definition normalizeWaitUntil :: "waitUntil_arg \<Rightarrow> js_error + string list" where
  "normalizeWaitUntil arg =
     (let waitUntil = (case arg of Token t \<Rightarrow> [t] | Tokens ts \<Rightarrow> ts)
      in case check_conditions waitUntil of
           Some e \<Rightarrow> Inl e
         | None \<Rightarrow> Inr waitUntil)"

section \<open>The frame manager's state\<close>

text \<open>
  \<^verbatim>\<open>FrameData\<close>, the record the manager attaches to every frame under
  \<^verbatim>\<open>frameDataSymbol\<close>.
\<close>

record FrameData =
  frameId :: string
  lastCommittedNavigationId :: string
  firedEvents :: "string set"

text \<open>
  A frame object. The class \<^verbatim>\<open>frames.Frame\<close> is a collaborator (\<^verbatim>\<open>../frames\<close>);
  the fields are those the spec's data model lists: the parent reference, the ordered
  child frames, url and name, whether the frame is detached, and the execution context
  bound under the designations "main" and "utility". \<open>data\<close> is the manager's
  \<^verbatim>\<open>FrameData\<close>, which \<^verbatim>\<open>_onFrameAttached\<close> sets right after constructing the frame.
\<close>

record Frame =
  parentFrame :: "frame_ref option"
  childFrames :: "frame_ref list"
  frame_url :: string
  frame_name :: string
  detached :: bool
  mainContext :: "context_ref option"
  utilityContext :: "context_ref option"
  data :: FrameData

text \<open>
  An execution context: the identifier its delegate was built with, and the frame of
  its DOM world, absent when the context belongs to no frame.
\<close>

record ExecutionContext =
  context_ref :: context_ref
  executionContextId :: string
  context_frame :: "frame_ref option"

text \<open>The events of \<^verbatim>\<open>FrameManagerEvents\<close>, each with the argument it is emitted with.\<close>

datatype event =
  FrameNavigated frame_ref
| FrameAttached frame_ref
| FrameDetached frame_ref
| Load
| DOMContentLoaded

text \<open>
  The manager: \<^verbatim>\<open>_mainFrame\<close>, \<^verbatim>\<open>_frames\<close>, \<^verbatim>\<open>_contextIdToContext\<close>, what
  \<^verbatim>\<open>_timeoutSettings.navigationTimeout()\<close> returns, the store of frame objects with
  the next free address, and the events emitted so far, oldest first.
\<close>

record FrameManager =
  mainFrame :: "frame_ref option"
  frames :: "string \<rightharpoonup> frame_ref"
  contextIdToContext :: "string \<rightharpoonup> ExecutionContext"
  navigationTimeout :: int
  store :: "frame_ref \<Rightarrow> Frame"
  next_ref :: nat
  emitted :: "event list"

text \<open>\<^verbatim>\<open>this.emit(event, ...)\<close>.\<close>

definition emit :: "event \<Rightarrow> FrameManager \<Rightarrow> FrameManager" where
  "emit ev s = s\<lparr>emitted := emitted s @ [ev]\<rparr>"

text \<open>An in-place change of the frame object at an address.\<close>

definition update_frame :: "frame_ref \<Rightarrow> (Frame \<Rightarrow> Frame) \<Rightarrow> FrameManager \<Rightarrow> FrameManager" where
  "update_frame r f s = s\<lparr>store := (store s)(r := f (store s r))\<rparr>"

text \<open>\<^verbatim>\<open>_frameData(frame)\<close>.\<close>

definition frameData :: "FrameManager \<Rightarrow> frame_ref \<Rightarrow> FrameData" where
  "frameData s frame = data (store s frame)"

text \<open>
  A handler runs to its end or throws; either way the manager is left in some state.
\<close>

type_synonym handler_result = "js_error option \<times> FrameManager"

section \<open>Collaborators of the handlers\<close>

text \<open>
  Modelled from the spec: the constructor of \<^verbatim>\<open>frames.Frame\<close> (\<^verbatim>\<open>../frames\<close> is not
  part of the sources). It makes a new frame object with the given parent and, when
  there is a parent, inserts it last into the parent's child collection. The new object
  gets the next free address; the \<^verbatim>\<open>FrameData\<close> is the one \<^verbatim>\<open>_onFrameAttached\<close>
  stores on it in its next statements.
\<close>

definition new_Frame :: "frame_ref option \<Rightarrow> FrameData \<Rightarrow> FrameManager \<Rightarrow> frame_ref \<times> FrameManager" where
  "new_Frame parent d s =
     (let frame = next_ref s;
          s1 = s\<lparr>next_ref := Suc frame,
                 store := (store s)(frame :=
                   \<lparr>parentFrame = parent, childFrames = [], frame_url = [], frame_name = [],
                    detached = False, mainContext = None, utilityContext = None, data = d\<rparr>)\<rparr>
      in case parent of
           None \<Rightarrow> (frame, s1)
         | Some p \<Rightarrow> (frame, update_frame p (\<lambda>fr. fr\<lparr>childFrames := childFrames fr @ [frame]\<rparr>) s1))"

text \<open>
  Modelled from the spec: \<^verbatim>\<open>Frame._navigated(url, name)\<close> updates the frame's url and
  name.
\<close>

definition frame_navigated :: "frame_ref \<Rightarrow> string \<Rightarrow> string \<Rightarrow> FrameManager \<Rightarrow> FrameManager" where
  "frame_navigated frame u n s = update_frame frame (\<lambda>fr. fr\<lparr>frame_url := u, frame_name := n\<rparr>) s"

text \<open>Modelled from the spec: \<^verbatim>\<open>Frame._detach()\<close> marks the frame detached.\<close>

definition frame_detach :: "frame_ref \<Rightarrow> FrameManager \<Rightarrow> FrameManager" where
  "frame_detach frame s = update_frame frame (\<lambda>fr. fr\<lparr>detached := True\<rparr>) s"

text \<open>
  Modelled from the spec: \<^verbatim>\<open>Frame._contextCreated(designation, context)\<close> binds the
  context into the frame under the designation, and \<^verbatim>\<open>Frame._contextDestroyed(context)\<close>
  unbinds it wherever it is bound.
\<close>

datatype designation = MainWorld | UtilityWorld

definition frame_contextCreated ::
  "frame_ref \<Rightarrow> designation \<Rightarrow> ExecutionContext \<Rightarrow> FrameManager \<Rightarrow> FrameManager" where
  "frame_contextCreated frame w context s =
     (case w of
        MainWorld \<Rightarrow> update_frame frame (\<lambda>fr. fr\<lparr>mainContext := Some (context_ref context)\<rparr>) s
      | UtilityWorld \<Rightarrow> update_frame frame (\<lambda>fr. fr\<lparr>utilityContext := Some (context_ref context)\<rparr>) s)"

definition frame_contextDestroyed :: "frame_ref \<Rightarrow> ExecutionContext \<Rightarrow> FrameManager \<Rightarrow> FrameManager" where
  "frame_contextDestroyed frame context s =
     update_frame frame
       (\<lambda>fr. fr\<lparr>mainContext :=
                  (if mainContext fr = Some (context_ref context) then None else mainContext fr),
                utilityContext :=
                  (if utilityContext fr = Some (context_ref context) then None else utilityContext fr)\<rparr>)
       s"

text \<open>
  Modelled from the spec: \<^verbatim>\<open>assert(value, message)\<close> of \<^verbatim>\<open>../helper\<close> fails fatally,
  with the message, when the value is falsy.
\<close>

definition assert :: "bool \<Rightarrow> string \<Rightarrow> js_error option" where
  "assert v message = (if v then None else Some (Error message))"

text \<open>
  \<^verbatim>\<open>String.prototype.toLowerCase\<close>, on the ASCII letters: the capitals \<open>A\<close> to \<open>Z\<close>
  (codes 65 to 90) go to the small letters 32 above, every other character stays.
\<close>

definition lower_char :: "char \<Rightarrow> char" where
  "lower_char c =
     (let n = (of_char c :: nat) in if 65 \<le> n \<and> n \<le> 90 then char_of (n + 32) else c)"

definition toLowerCase :: "string \<Rightarrow> string" where
  "toLowerCase str = map lower_char str"

section \<open>The event handlers\<close>

text \<open>
  \<^verbatim>\<open>_onExecutionContextCreated({executionContextId, auxData})\<close>; \<open>auxData\<close> is the
  \<^verbatim>\<open>frameId\<close> of the auxiliary data, absent when there is none.
\<close>

definition onExecutionContextCreated :: "string \<Rightarrow> string option \<Rightarrow> FrameManager \<Rightarrow> handler_result" where
  "onExecutionContextCreated ctxId auxData s =
     (let frame = (case auxData of None \<Rightarrow> None | Some fid \<Rightarrow> frames s fid);
          context = \<lparr>context_ref = next_ref s, executionContextId = ctxId, context_frame = frame\<rparr>;
          s1 = s\<lparr>next_ref := Suc (next_ref s)\<rparr>;
          s2 = (case frame of
                  None \<Rightarrow> s1
                | Some f \<Rightarrow> frame_contextCreated f UtilityWorld context
                             (frame_contextCreated f MainWorld context s1))
      in (None, s2\<lparr>contextIdToContext := (contextIdToContext s2)(ctxId \<mapsto> context)\<rparr>))"

text \<open>\<^verbatim>\<open>_onExecutionContextDestroyed({executionContextId})\<close>.\<close>

definition onExecutionContextDestroyed :: "string \<Rightarrow> FrameManager \<Rightarrow> handler_result" where
  "onExecutionContextDestroyed ctxId s =
     (case contextIdToContext s ctxId of
        None \<Rightarrow> (None, s)
      | Some context \<Rightarrow>
          (let s1 = s\<lparr>contextIdToContext := (contextIdToContext s)(ctxId := None)\<rparr>
           in case context_frame context of
                None \<Rightarrow> (None, s1)
              | Some f \<Rightarrow> (None, frame_contextDestroyed f context s1)))"

text \<open>
  \<^verbatim>\<open>_onNavigationCommitted(params)\<close>, with the fields of \<open>params\<close> as arguments. With
  no frame under the identifier, \<^verbatim>\<open>frame._navigated\<close> is read off \<^verbatim>\<open>undefined\<close>.
\<close>

definition onNavigationCommitted ::
  "string \<Rightarrow> string \<Rightarrow> string \<Rightarrow> string \<Rightarrow> FrameManager \<Rightarrow> handler_result" where
  "onNavigationCommitted fid u n navId s =
     (case frames s fid of
        None \<Rightarrow> (Some TypeError, s)
      | Some frame \<Rightarrow>
          (let s1 = frame_navigated frame u n s;
               s2 = update_frame frame
                      (\<lambda>fr. fr\<lparr>data := (data fr)\<lparr>lastCommittedNavigationId := navId\<rparr>\<rparr>) s1;
               s3 = update_frame frame (\<lambda>fr. fr\<lparr>data := (data fr)\<lparr>firedEvents := {}\<rparr>\<rparr>) s2
           in (None, emit (FrameNavigated frame) s3)))"

text \<open>\<^verbatim>\<open>_onSameDocumentNavigation(params)\<close>.\<close>

definition onSameDocumentNavigation :: "string \<Rightarrow> string \<Rightarrow> FrameManager \<Rightarrow> handler_result" where
  "onSameDocumentNavigation fid u s =
     (case frames s fid of
        None \<Rightarrow> (Some TypeError, s)
      | Some frame \<Rightarrow>
          (let s1 = frame_navigated frame u (frame_name (store s frame)) s
           in (None, emit (FrameNavigated frame) s1)))"

text \<open>
  \<^verbatim>\<open>_onFrameAttached(params)\<close>; \<open>parentFrameId\<close> is absent for a frame with no parent.
  The frame is constructed, and linked into its parent, before the assertion runs.
\<close>

definition onFrameAttached :: "string \<Rightarrow> string option \<Rightarrow> FrameManager \<Rightarrow> handler_result" where
  "onFrameAttached fid parentFrameId s =
     (let parentFrame' = (case parentFrameId of None \<Rightarrow> None | Some p \<Rightarrow> frames s p);
          (frame, s1) = new_Frame parentFrame'
             \<lparr>frameId = fid, lastCommittedNavigationId = [], firedEvents = {}\<rparr> s;
          attach = (\<lambda>s'. (None, emit (FrameAttached frame) (s'\<lparr>frames := (frames s')(fid \<mapsto> frame)\<rparr>)))
      in if parentFrame' = None
         then (case assert (mainFrame s1 = None) ''INTERNAL ERROR: re-attaching main frame!'' of
                 Some e \<Rightarrow> (Some e, s1)
               | None \<Rightarrow> attach (s1\<lparr>mainFrame := Some frame\<rparr>))
         else attach s1)"

text \<open>
  \<^verbatim>\<open>_onFrameDetached(params)\<close>. The entry is deleted from the map before
  \<^verbatim>\<open>frame._detach\<close> is read, off \<^verbatim>\<open>undefined\<close> when there was no entry.
\<close>

definition onFrameDetached :: "string \<Rightarrow> FrameManager \<Rightarrow> handler_result" where
  "onFrameDetached fid s =
     (let frame = frames s fid;
          s1 = s\<lparr>frames := (frames s)(fid := None)\<rparr>
      in case frame of
           None \<Rightarrow> (Some TypeError, s1)
         | Some f \<Rightarrow> (None, emit (FrameDetached f) (frame_detach f s1)))"

text \<open>
  \<^verbatim>\<open>_onEventFired({frameId, name})\<close>. With no frame under the identifier,
  \<^verbatim>\<open>_frameData\<close> reads a property of \<^verbatim>\<open>undefined\<close>.
\<close>

definition onEventFired :: "string \<Rightarrow> string \<Rightarrow> FrameManager \<Rightarrow> handler_result" where
  "onEventFired fid n s =
     (case frames s fid of
        None \<Rightarrow> (Some TypeError, s)
      | Some frame \<Rightarrow>
          (let s1 = update_frame frame
                      (\<lambda>fr. fr\<lparr>data := (data fr)\<lparr>firedEvents :=
                                insert (toLowerCase n) (firedEvents (data fr))\<rparr>\<rparr>) s
           in if Some frame = mainFrame s1
              then (if n = ''load'' then (None, emit Load s1)
                    else if n = ''DOMContentLoaded'' then (None, emit DOMContentLoaded s1)
                    else (None, s1))
              else (None, s1)))"

text \<open>The manager as its constructor leaves it.\<close>

definition blank_frame :: Frame where
  "blank_frame = \<lparr>parentFrame = None, childFrames = [], frame_url = [], frame_name = [],
     detached = False, mainContext = None, utilityContext = None,
     data = \<lparr>frameId = [], lastCommittedNavigationId = [], firedEvents = {}\<rparr>\<rparr>"

definition new_FrameManager :: "int \<Rightarrow> FrameManager" where
  "new_FrameManager t =
     \<lparr>mainFrame = None, frames = Map.empty, contextIdToContext = Map.empty,
      navigationTimeout = t, store = (\<lambda>_. blank_frame), next_ref = 0, emitted = []\<rparr>"

section \<open>The navigation-wait protocol\<close>

subsection \<open>Numbers in messages\<close>

text \<open>
  A timeout is a count of milliseconds. JavaScript numbers that are integers of
  magnitude at most \<open>2 ^ 53\<close> are modelled, as \<open>int\<close>; on these, appending a number
  to a string appends its decimal digits, with a minus sign when negative. Beyond that
  magnitude (where JavaScript rounds, and from \<open>10 ^ 21\<close> prints an exponent), and for
  numbers that are not integers, \<open>numberToString\<close> does not describe the code, and
  nothing is stated of it there.
\<close>

definition digit_char :: "nat \<Rightarrow> char" where
  "digit_char d = char_of (48 + d)"

fun digits :: "nat \<Rightarrow> string" where
  "digits n = (if n < 10 then [digit_char n] else digits (n div 10) @ [digit_char (n mod 10)])"

declare digits.simps [simp del]

definition numberToString :: "int \<Rightarrow> string" where
  "numberToString n = (if n < 0 then CHR ''-'' # digits (nat (- n)) else digits (nat n))"

text \<open>
  Reading decimal digits back: whether a character is one of \<open>0\<close> to \<open>9\<close> (codes 48 to
  57), and the number that a string of such characters denotes. They serve to say what
  the digits in a message stand for.
\<close>

definition is_digit :: "char \<Rightarrow> bool" where
  "is_digit c = (48 \<le> (of_char c :: nat) \<and> (of_char c :: nat) \<le> 57)"

definition decimal_value :: "string \<Rightarrow> nat" where
  "decimal_value str = foldl (\<lambda>a c. 10 * a + (of_char c - 48)) 0 str"

subsection \<open>Effects of a call\<close>

text \<open>
  The two watchdog classes of \<^verbatim>\<open>./NavigationWatchdog\<close> are collaborators; a watchdog
  is named by the arguments it was constructed with (the manager and the network
  manager, which are the same for all, are left out).
\<close>

datatype watchdog =
  NextNavigationWatchdog frame_ref
| NavigationWatchdog frame_ref string "string option" "string list"

text \<open>
  What a call does to the outside, in the order it does it: a command sent to the
  session, \<^verbatim>\<open>setTimeout\<close> (with the handle it returned and the delay),
  \<^verbatim>\<open>clearTimeout\<close> (with its argument, \<^verbatim>\<open>null\<close> when no timer was set), the
  construction of a watchdog and its disposal.
\<close>

datatype effect =
  SendPageNavigate string "string option" string
| SetTimeout nat int
| ClearTimeout "nat option"
| Create watchdog
| Dispose watchdog

text \<open>What a call returns: \<^verbatim>\<open>undefined\<close>, \<^verbatim>\<open>null\<close> or a response object.\<close>

datatype js_return = Undefined | Null | Response response

text \<open>
  How an asynchronous call ends: it resolves with a value, it rejects with an error, or
  it stays pending for ever.
\<close>

datatype completion = Returns js_return | Throws js_error | Pending

text \<open>A promise of the environment either settles with a value or never does.\<close>

datatype 'a settle = Never | Settles 'a

subsection \<open>The environment of a call\<close>

text \<open>
  Everything a call awaits is decided outside it. For the identifier-scoped watchdog
  (\<^verbatim>\<open>watchDog\<close> in both entry points): what \<^verbatim>\<open>watchDog.promise()\<close> settles with
  (an error value or an absent one) if it ever settles, whether the timer, when one is
  armed, runs out before that, what \<^verbatim>\<open>watchDog.navigationResponse()\<close> yields
  (\<^verbatim>\<open>null\<close> or a response object), and the handle \<^verbatim>\<open>setTimeout\<close> returns.
  A watchdog's promise does not reject: an error is the value it resolves with.
\<close>

record dog_env =
  timer_handle :: nat
  watchDog_promise :: "js_error option settle"
  timer_before_watchDog :: bool
  watchDog_navigationResponse :: "response option"

text \<open>
  The pair \<^verbatim>\<open>{navigationId, url}\<close> that \<^verbatim>\<open>nextNavigationDog.navigation()\<close> yields;
  either field may be absent.
\<close>

record navigation =
  navigationId :: "string option"
  url :: "string option"

text \<open>
  For \<^verbatim>\<open>waitForFrameNavigation\<close>, in addition: the same for the next-navigation
  watchdog and the race it takes part in.
\<close>

record wait_env = dog_env +
  nextNavigationDog_promise :: "js_error option settle"
  timer_before_nextNavigationDog :: bool
  nextNavigationDog_navigation :: navigation

text \<open>
  For \<^verbatim>\<open>navigateFrame\<close>, in addition: how \<^verbatim>\<open>session.send('Page.navigate', ...)\<close>
  settles, with a rejection or with the \<^verbatim>\<open>navigationId\<close> of its response.
\<close>

record navigate_env = dog_env +
  send_navigate :: "(js_error + string option) settle"

text \<open>
  The options object of both entry points; \<open>None\<close> is an absent field, which the
  destructuring replaces by its default.
\<close>

record options =
  timeout :: "int option"
  waitUntil :: "waitUntil_arg option"
  referer :: "string option"

text \<open>
  The destructuring at the head of both entry points:
  \<^verbatim>\<open>timeout = this._timeoutSettings.navigationTimeout()\<close> and
  \<^verbatim>\<open>waitUntil = ['load']\<close> stand in for absent fields.
\<close>

definition option_timeout :: "FrameManager \<Rightarrow> options \<Rightarrow> int" where
  "option_timeout s opts = (case timeout opts of None \<Rightarrow> navigationTimeout s | Some t \<Rightarrow> t)"

definition option_waitUntil :: "options \<Rightarrow> waitUntil_arg" where
  "option_waitUntil opts = (case waitUntil opts of None \<Rightarrow> Tokens [''load''] | Some w \<Rightarrow> w)"

text \<open>
  \<^verbatim>\<open>new TimeoutError('Navigation timeout of ' + timeout + ' ms exceeded')\<close>.
\<close>

definition new_timeoutError :: "int \<Rightarrow> js_error" where
  "new_timeoutError t =
     TimeoutError (''Navigation timeout of '' @ numberToString t @ '' ms exceeded'')"

text \<open>
  \<^verbatim>\<open>timeout ? setTimeout(timeoutCallback, timeout) : null\<close>: the handle, and the effect.
\<close>

definition arm_timer :: "('e::type) dog_env_scheme \<Rightarrow> int \<Rightarrow> nat option \<times> effect list" where
  "arm_timer env t =
     (if t \<noteq> 0 then (Some (timer_handle env), [SetTimeout (timer_handle env) t]) else (None, []))"

text \<open>JavaScript's \<^verbatim>\<open>!navigationId\<close>: absent or the empty string.\<close>

definition falsy :: "string option \<Rightarrow> bool" where
  "falsy v = (case v of None \<Rightarrow> True | Some str \<Rightarrow> str = [])"

text \<open>
  \<^verbatim>\<open>await Promise.race([watchdog promise, timeoutPromise])\<close>. The timeout promise
  resolves with \<open>timeoutError\<close> when the timer runs out, and only when a timer was set
  (\<open>timeoutId\<close> is not \<^verbatim>\<open>null\<close>). An armed timer wins when it runs out before the
  watchdog settles, in particular when the watchdog never settles. With no timer and
  a watchdog that never settles, the \<^verbatim>\<open>await\<close> does not return: \<open>None\<close>.
\<close>

definition race ::
  "nat option \<Rightarrow> js_error \<Rightarrow> bool \<Rightarrow> js_error option settle \<Rightarrow> js_error option option" where
  "race timeoutId timeoutError timer_first dog =
     (if timeoutId \<noteq> None \<and> (timer_first \<or> dog = Never) then Some (Some timeoutError)
      else case dog of Never \<Rightarrow> None | Settles v \<Rightarrow> Some v)"

text \<open>
  The last lines shared by both entry points, from the construction of \<^verbatim>\<open>watchDog\<close>
  to the \<^verbatim>\<open>return\<close>: race, dispose, clear the timer, throw the error if there is
  one, else return the navigation response.
\<close>

definition await_watchDog ::
  "('e::type) dog_env_scheme \<Rightarrow> nat option \<Rightarrow> js_error \<Rightarrow> watchdog \<Rightarrow> effect list
     \<Rightarrow> completion \<times> effect list" where
  "await_watchDog env timeoutId timeoutError watchDog tr =
     (let tr1 = tr @ [Create watchDog]
      in case race timeoutId timeoutError (timer_before_watchDog env) (watchDog_promise env) of
           None \<Rightarrow> (Pending, tr1)
         | Some error \<Rightarrow>
             (let tr2 = tr1 @ [Dispose watchDog, ClearTimeout timeoutId]
              in case error of
                   Some e \<Rightarrow> (Throws e, tr2)
                 | None \<Rightarrow>
                     (case watchDog_navigationResponse env of
                        None \<Rightarrow> (Returns Null, tr2)
                      | Some r \<Rightarrow> (Returns (Response r), tr2))))"

text \<open>
  \<^verbatim>\<open>waitForFrameNavigation(frame, options)\<close>. The manager is read for the default
  timeout.
\<close>

definition waitForFrameNavigation ::
  "FrameManager \<Rightarrow> frame_ref \<Rightarrow> options \<Rightarrow> wait_env \<Rightarrow> completion \<times> effect list" where
  "waitForFrameNavigation s frame opts env =
     (let timeout' = option_timeout s opts;
          waitUntil' = option_waitUntil opts
      in case normalizeWaitUntil waitUntil' of
           Inl e \<Rightarrow> (Throws e, [])
         | Inr normalizedWaitUntil \<Rightarrow>
             (let timeoutError = new_timeoutError timeout';
                  (timeoutId, tr0) = arm_timer env timeout';
                  nextNavigationDog = NextNavigationWatchdog frame;
                  tr1 = tr0 @ [Create nextNavigationDog]
              in case race timeoutId timeoutError (timer_before_nextNavigationDog env)
                        (nextNavigationDog_promise env) of
                   None \<Rightarrow> (Pending, tr1)
                 | Some error1 \<Rightarrow>
                     (let tr2 = tr1 @ [Dispose nextNavigationDog]
                      in case error1 of
                           Some e \<Rightarrow> (Throws e, tr2 @ [ClearTimeout timeoutId])
                         | None \<Rightarrow>
                             (let nav = nextNavigationDog_navigation env
                              in if falsy (navigationId nav)
                                 then (Returns Null, tr2 @ [ClearTimeout timeoutId])
                                 else await_watchDog env timeoutId timeoutError
                                        (NavigationWatchdog frame (the (navigationId nav)) (url nav)
                                           normalizedWaitUntil)
                                        tr2))))"

text \<open>
  \<^verbatim>\<open>navigateFrame(frame, url, options)\<close>. The manager is read for the default timeout
  and for the frame's identifier.
\<close>

definition navigateFrame ::
  "FrameManager \<Rightarrow> frame_ref \<Rightarrow> string \<Rightarrow> options \<Rightarrow> navigate_env \<Rightarrow> completion \<times> effect list" where
  "navigateFrame s frame target opts env =
     (let timeout' = option_timeout s opts;
          waitUntil' = option_waitUntil opts
      in case normalizeWaitUntil waitUntil' of
           Inl e \<Rightarrow> (Throws e, [])
         | Inr normalizedWaitUntil \<Rightarrow>
             (let tr0 = [SendPageNavigate (frameId (frameData s frame)) (referer opts) target]
              in case send_navigate env of
                   Never \<Rightarrow> (Pending, tr0)
                 | Settles (Inl e) \<Rightarrow> (Throws e, tr0)
                 | Settles (Inr navId) \<Rightarrow>
                     if falsy navId then (Returns Undefined, tr0)
                     else
                       (let timeoutError = new_timeoutError timeout';
                            (timeoutId, tr1) = arm_timer env timeout'
                        in await_watchDog env timeoutId timeoutError
                             (NavigationWatchdog frame (the navId) (Some target) normalizedWaitUntil)
                             (tr0 @ tr1))))"

subsection \<open>Reading a trace\<close>

text \<open>
  The timers still set and the watchdogs not yet disposed after a sequence of effects.
\<close>

fun pending_timers :: "effect list \<Rightarrow> nat set \<Rightarrow> nat set" where
  "pending_timers [] T = T"
| "pending_timers (SetTimeout h d # tr) T = pending_timers tr (insert h T)"
| "pending_timers (ClearTimeout (Some h) # tr) T = pending_timers tr (T - {h})"
| "pending_timers (_ # tr) T = pending_timers tr T"

fun live_watchdogs :: "effect list \<Rightarrow> watchdog set \<Rightarrow> watchdog set" where
  "live_watchdogs [] D = D"
| "live_watchdogs (Create d # tr) D = live_watchdogs tr (insert d D)"
| "live_watchdogs (Dispose d # tr) D = live_watchdogs tr (D - {d})"
| "live_watchdogs (_ # tr) D = live_watchdogs tr D"

text \<open>The effects that set a timer and those that construct a watchdog.\<close>

fun is_SetTimeout :: "effect \<Rightarrow> bool" where
  "is_SetTimeout (SetTimeout h d) = True"
| "is_SetTimeout _ = False"

fun is_Create :: "effect \<Rightarrow> bool" where
  "is_Create (Create d) = True"
| "is_Create _ = False"

section \<open>Example inputs\<close>

text \<open>
  A manager that has seen a main frame \<open>main\<close> attached and then a child frame
  \<open>child\<close> of it; options with a timeout of 500 ms; and environments for the two
  entry points.
\<close>

definition example_manager :: FrameManager where
  "example_manager =
     snd (onFrameAttached ''child'' (Some ''main'')
       (snd (onFrameAttached ''main'' None (new_FrameManager 30000))))"

definition example_options :: options where
  "example_options = \<lparr>timeout = Some 500, waitUntil = None, referer = None\<rparr>"

definition example_wait_env :: wait_env where
  "example_wait_env =
     \<lparr>timer_handle = 1, watchDog_promise = Settles None, timer_before_watchDog = True,
      watchDog_navigationResponse = None, nextNavigationDog_promise = Settles None,
      timer_before_nextNavigationDog = False,
      nextNavigationDog_navigation = \<lparr>navigationId = Some ''n1'', url = Some ''http://a/''\<rparr>\<rparr>"

definition example_navigate_env :: navigate_env where
  "example_navigate_env =
     \<lparr>timer_handle = 1, watchDog_promise = Settles None, timer_before_watchDog = False,
      watchDog_navigationResponse = Some 7, send_navigate = Settles (Inr (Some ''n1''))\<rparr>"

section \<open>Properties of normalizeWaitUntil\<close>

lemma check_conditions_None:
  "check_conditions ts = None \<longleftrightarrow> (\<forall>c \<in> set ts. c = ''load'' \<or> c = ''domcontentloaded'')"
  by (induction ts) auto

lemma check_conditions_Some:
  "check_conditions ts = Some e \<Longrightarrow>
     \<exists>c \<in> set ts. c \<noteq> ''load'' \<and> c \<noteq> ''domcontentloaded'' \<and>
       e = Error (''Unknown waitUntil condition: '' @ c)"
  by (induction ts) (auto split: if_splits)

lemma wait_invalid:
  "normalizeWaitUntil (option_waitUntil opts) = Inl e \<Longrightarrow>
     waitForFrameNavigation s frame opts env = (Throws e, [])"
  by (simp add: waitForFrameNavigation_def)

lemma navigate_invalid:
  "normalizeWaitUntil (option_waitUntil opts) = Inl e \<Longrightarrow>
     navigateFrame s frame target opts env = (Throws e, [])"
  by (simp add: navigateFrame_def)

text \<open>
  Claim C5. \<^verbatim>\<open>normalizeWaitUntil\<close> turns a single token into a one-element list (and
  rejects it when it is not one of the two conditions), returns a list of valid tokens
  as it is, and throws the validation error for a list with a token that is neither
  \<^verbatim>\<open>'load'\<close> nor \<^verbatim>\<open>'domcontentloaded'\<close>. In \<^verbatim>\<open>waitForFrameNavigation\<close> and in
  \<^verbatim>\<open>navigateFrame\<close> a failed validation is thrown with an empty trace: no command has
  been sent, no timer set and no watchdog constructed.
\<close>

theorem normalizeWaitUntil_validates:
  "normalizeWaitUntil (Token t) =
     (if t = ''load'' \<or> t = ''domcontentloaded'' then Inr [t]
      else Inl (Error (''Unknown waitUntil condition: '' @ t)))
   \<and> ((\<forall>c \<in> set ts. c = ''load'' \<or> c = ''domcontentloaded'') \<longrightarrow>
         normalizeWaitUntil (Tokens ts) = Inr ts)
   \<and> ((\<exists>c \<in> set ts. c \<noteq> ''load'' \<and> c \<noteq> ''domcontentloaded'') \<longrightarrow>
         (\<exists>c \<in> set ts. c \<noteq> ''load'' \<and> c \<noteq> ''domcontentloaded'' \<and>
            normalizeWaitUntil (Tokens ts) = Inl (Error (''Unknown waitUntil condition: '' @ c))))
   \<and> (normalizeWaitUntil (option_waitUntil opts) = Inl e \<longrightarrow>
         waitForFrameNavigation s frame opts env = (Throws e, []) \<and>
         navigateFrame s frame target opts nenv = (Throws e, []))"
proof (intro conjI impI)
  show "normalizeWaitUntil (Token t) =
     (if t = ''load'' \<or> t = ''domcontentloaded'' then Inr [t]
      else Inl (Error (''Unknown waitUntil condition: '' @ t)))"
    by (simp add: normalizeWaitUntil_def)
next
  assume "\<forall>c \<in> set ts. c = ''load'' \<or> c = ''domcontentloaded''"
  then have "check_conditions ts = None" by (simp add: check_conditions_None)
  then show "normalizeWaitUntil (Tokens ts) = Inr ts" by (simp add: normalizeWaitUntil_def)
next
  assume bad: "\<exists>c \<in> set ts. c \<noteq> ''load'' \<and> c \<noteq> ''domcontentloaded''"
  then have "check_conditions ts \<noteq> None" using check_conditions_None by blast
  then obtain e where e: "check_conditions ts = Some e" by blast
  from check_conditions_Some [OF e] obtain c where
    "c \<in> set ts" "c \<noteq> ''load''" "c \<noteq> ''domcontentloaded''"
    "e = Error (''Unknown waitUntil condition: '' @ c)" by blast
  with e show "\<exists>c \<in> set ts. c \<noteq> ''load'' \<and> c \<noteq> ''domcontentloaded'' \<and>
            normalizeWaitUntil (Tokens ts) = Inl (Error (''Unknown waitUntil condition: '' @ c))"
    by (auto simp: normalizeWaitUntil_def)
next
  assume "normalizeWaitUntil (option_waitUntil opts) = Inl e"
  then show "waitForFrameNavigation s frame opts env = (Throws e, [])" by (rule wait_invalid)
next
  assume "normalizeWaitUntil (option_waitUntil opts) = Inl e"
  then show "navigateFrame s frame target opts nenv = (Throws e, [])" by (rule navigate_invalid)
qed

theorem normalizeWaitUntil_validates_witness:
  "normalizeWaitUntil (Token ''load'') = Inr [''load'']
   \<and> normalizeWaitUntil (Tokens [''load'', ''domcontentloaded'']) = Inr [''load'', ''domcontentloaded'']
   \<and> normalizeWaitUntil (Tokens [''load'', ''networkidle'']) =
       Inl (Error ''Unknown waitUntil condition: networkidle'')
   \<and> waitForFrameNavigation (new_FrameManager 30000) 0
        \<lparr>timeout = None, waitUntil = Some (Token ''networkidle''), referer = None\<rparr>
        \<lparr>timer_handle = 1, watchDog_promise = Settles None, timer_before_watchDog = False,
         watchDog_navigationResponse = None, nextNavigationDog_promise = Settles None,
         timer_before_nextNavigationDog = False,
         nextNavigationDog_navigation = \<lparr>navigationId = Some ''n1'', url = None\<rparr>\<rparr>
        = (Throws (Error ''Unknown waitUntil condition: networkidle''), [])
   \<and> navigateFrame (new_FrameManager 30000) 0 ''http://a''
        \<lparr>timeout = None, waitUntil = Some (Token ''networkidle''), referer = None\<rparr>
        \<lparr>timer_handle = 1, watchDog_promise = Settles None, timer_before_watchDog = False,
         watchDog_navigationResponse = None, send_navigate = Settles (Inr (Some ''n1''))\<rparr>
        = (Throws (Error ''Unknown waitUntil condition: networkidle''), [])"
  using normalizeWaitUntil_validates [of "''load''" "[''load'', ''domcontentloaded'']"
      "\<lparr>timeout = None, waitUntil = Some (Token ''networkidle''), referer = None\<rparr>"
      "Error ''Unknown waitUntil condition: networkidle''"
      "new_FrameManager 30000" 0
      "\<lparr>timer_handle = 1, watchDog_promise = Settles None, timer_before_watchDog = False,
         watchDog_navigationResponse = None, nextNavigationDog_promise = Settles None,
         timer_before_nextNavigationDog = False,
         nextNavigationDog_navigation = \<lparr>navigationId = Some ''n1'', url = None\<rparr>\<rparr>"
      "''http://a''"
      "\<lparr>timer_handle = 1, watchDog_promise = Settles None, timer_before_watchDog = False,
         watchDog_navigationResponse = None, send_navigate = Settles (Inr (Some ''n1''))\<rparr>"]
    normalizeWaitUntil_validates [of "''load''" "[''load'', ''networkidle'']"]
  by (simp add: normalizeWaitUntil_def option_waitUntil_def)

section \<open>Evaluating the examples\<close>

lemma numberToString_500: "numberToString 500 = ''500''"
  by code_simp

lemma toLowerCase_DOMContentLoaded: "toLowerCase ''DOMContentLoaded'' = ''domcontentloaded''"
  by code_simp

lemma toLowerCase_load: "toLowerCase ''load'' = ''load''"
  by code_simp

lemma normalize_default: "normalizeWaitUntil (Tokens [''load'']) = Inr [''load'']"
  by (simp add: normalizeWaitUntil_def)

lemma example_manager_eq:
  "example_manager =
    \<lparr>mainFrame = Some 0, frames = [''main'' \<mapsto> 0, ''child'' \<mapsto> 1], contextIdToContext = Map.empty,
     navigationTimeout = 30000,
     store = (\<lambda>_. blank_frame)
       (0 := \<lparr>parentFrame = None, childFrames = [1], frame_url = [], frame_name = [],
              detached = False, mainContext = None, utilityContext = None,
              data = \<lparr>frameId = ''main'', lastCommittedNavigationId = [], firedEvents = {}\<rparr>\<rparr>,
        1 := \<lparr>parentFrame = Some 0, childFrames = [], frame_url = [], frame_name = [],
              detached = False, mainContext = None, utilityContext = None,
              data = \<lparr>frameId = ''child'', lastCommittedNavigationId = [], firedEvents = {}\<rparr>\<rparr>),
     next_ref = 2, emitted = [FrameAttached 0, FrameAttached 1]\<rparr>"
  by (simp add: example_manager_def onFrameAttached_def new_Frame_def new_FrameManager_def
        assert_def emit_def update_frame_def Let_def fun_upd_twist)

lemmas example_defs =
  example_options_def example_wait_env_def example_navigate_env_def
  option_timeout_def option_waitUntil_def normalize_default arm_timer_def race_def falsy_def
  new_timeoutError_def numberToString_500 await_watchDog_def frameData_def Let_def

lemma wait_example:
  "waitForFrameNavigation example_manager 0 example_options example_wait_env =
     (Throws (TimeoutError ''Navigation timeout of 500 ms exceeded''),
      [SetTimeout 1 500, Create (NextNavigationWatchdog 0), Dispose (NextNavigationWatchdog 0),
       Create (NavigationWatchdog 0 ''n1'' (Some ''http://a/'') [''load'']),
       Dispose (NavigationWatchdog 0 ''n1'' (Some ''http://a/'') [''load'']),
       ClearTimeout (Some 1)])"
  by (simp add: waitForFrameNavigation_def example_defs)

lemma navigate_example:
  "navigateFrame example_manager 0 ''http://a/'' example_options example_navigate_env =
     (Returns (Response 7),
      [SendPageNavigate ''main'' None ''http://a/'', SetTimeout 1 500,
       Create (NavigationWatchdog 0 ''n1'' (Some ''http://a/'') [''load'']),
       Dispose (NavigationWatchdog 0 ''n1'' (Some ''http://a/'') [''load'']),
       ClearTimeout (Some 1)])"
  by (simp add: navigateFrame_def example_defs example_manager_eq)

section \<open>Properties of the navigation-wait protocol\<close>

lemma pending_timers_append:
  "pending_timers (tr @ tr') T = pending_timers tr' (pending_timers tr T)"
  by (induction tr T rule: pending_timers.induct) auto

lemma live_watchdogs_append:
  "live_watchdogs (tr @ tr') D = live_watchdogs tr' (live_watchdogs tr D)"
  by (induction tr D rule: live_watchdogs.induct) auto

lemma arm_timer_cases:
  "arm_timer env t = (None, []) \<and> t = 0 \<or>
   arm_timer env t = (Some (timer_handle env), [SetTimeout (timer_handle env) t]) \<and> t \<noteq> 0"
  by (simp add: arm_timer_def)

lemma await_watchDog_released:
  "fst (await_watchDog env timeoutId timeoutError d tr) \<noteq> Pending \<Longrightarrow>
     snd (await_watchDog env timeoutId timeoutError d tr) =
       tr @ [Create d, Dispose d, ClearTimeout timeoutId]"
  by (auto simp: await_watchDog_def Let_def split: option.splits)

lemma await_watchDog_creates:
  "Create d \<in> set (snd (await_watchDog env timeoutId timeoutError d tr))"
  by (auto simp: await_watchDog_def Let_def split: option.splits)

lemma await_watchDog_prefix:
  "\<exists>tl. snd (await_watchDog env timeoutId timeoutError d tr) = tr @ Create d # tl \<and>
     (\<forall>e \<in> set tl. \<not> is_SetTimeout e)"
  by (auto simp: await_watchDog_def Let_def split: option.splits)

lemma await_watchDog_timeout:
  "timer_before_watchDog env \<or> watchDog_promise env = Never \<Longrightarrow>
     fst (await_watchDog env (Some h) timeoutError d tr) = Throws timeoutError"
  by (auto simp: await_watchDog_def race_def Let_def)

text \<open>
  Claim C1. Whenever \<^verbatim>\<open>waitForFrameNavigation\<close> or \<^verbatim>\<open>navigateFrame\<close> returns or throws,
  on whichever path, replaying its effects leaves no timer set and no watchdog
  undisposed: every \<^verbatim>\<open>setTimeout\<close> has been followed by the \<^verbatim>\<open>clearTimeout\<close> of its
  handle and every watchdog constructed has been disposed.
\<close>

theorem calls_release:
  "(fst (waitForFrameNavigation s frame opts env) \<noteq> Pending \<longrightarrow>
      pending_timers (snd (waitForFrameNavigation s frame opts env)) {} = {} \<and>
      live_watchdogs (snd (waitForFrameNavigation s frame opts env)) {} = {})
   \<and> (fst (navigateFrame s frame target opts nenv) \<noteq> Pending \<longrightarrow>
      pending_timers (snd (navigateFrame s frame target opts nenv)) {} = {} \<and>
      live_watchdogs (snd (navigateFrame s frame target opts nenv)) {} = {})"
proof (intro conjI impI)
  assume ret: "fst (waitForFrameNavigation s frame opts env) \<noteq> Pending"
  show "pending_timers (snd (waitForFrameNavigation s frame opts env)) {} = {}"
    using ret arm_timer_cases [of env "option_timeout s opts"]
    by (auto simp: waitForFrameNavigation_def Let_def pending_timers_append
          await_watchDog_released
          split: sum.splits option.splits prod.splits if_splits)
  show "live_watchdogs (snd (waitForFrameNavigation s frame opts env)) {} = {}"
    using ret arm_timer_cases [of env "option_timeout s opts"]
    by (auto simp: waitForFrameNavigation_def Let_def live_watchdogs_append
          await_watchDog_released
          split: sum.splits option.splits prod.splits if_splits)
next
  assume ret: "fst (navigateFrame s frame target opts nenv) \<noteq> Pending"
  show "pending_timers (snd (navigateFrame s frame target opts nenv)) {} = {}"
    using ret arm_timer_cases [of nenv "option_timeout s opts"]
    by (auto simp: navigateFrame_def Let_def pending_timers_append
          await_watchDog_released
          split: sum.splits option.splits prod.splits if_splits settle.splits)
  show "live_watchdogs (snd (navigateFrame s frame target opts nenv)) {} = {}"
    using ret arm_timer_cases [of nenv "option_timeout s opts"]
    by (auto simp: navigateFrame_def Let_def live_watchdogs_append
          await_watchDog_released
          split: sum.splits option.splits prod.splits if_splits settle.splits)
qed

theorem calls_release_witness:
  "fst (waitForFrameNavigation example_manager 0 example_options example_wait_env) =
     Throws (TimeoutError ''Navigation timeout of 500 ms exceeded'')
   \<and> pending_timers
        (snd (waitForFrameNavigation example_manager 0 example_options example_wait_env)) {} = {}
   \<and> live_watchdogs
        (snd (waitForFrameNavigation example_manager 0 example_options example_wait_env)) {} = {}
   \<and> fst (navigateFrame example_manager 0 ''http://a/'' example_options example_navigate_env) =
       Returns (Response 7)
   \<and> pending_timers
        (snd (navigateFrame example_manager 0 ''http://a/'' example_options example_navigate_env))
        {} = {}
   \<and> live_watchdogs
        (snd (navigateFrame example_manager 0 ''http://a/'' example_options example_navigate_env))
        {} = {}"
proof -
  have w: "fst (waitForFrameNavigation example_manager 0 example_options example_wait_env) \<noteq> Pending"
    using wait_example by simp
  have n: "fst (navigateFrame example_manager 0 ''http://a/'' example_options example_navigate_env)
             \<noteq> Pending"
    using navigate_example by simp
  from calls_release [of example_manager 0 example_options example_wait_env "''http://a/''"
      example_navigate_env] w n
  have "pending_timers
        (snd (waitForFrameNavigation example_manager 0 example_options example_wait_env)) {} = {}
   \<and> live_watchdogs
        (snd (waitForFrameNavigation example_manager 0 example_options example_wait_env)) {} = {}
   \<and> pending_timers
        (snd (navigateFrame example_manager 0 ''http://a/'' example_options example_navigate_env))
        {} = {}
   \<and> live_watchdogs
        (snd (navigateFrame example_manager 0 ''http://a/'' example_options example_navigate_env))
        {} = {}"
    by blast
  moreover have "fst (waitForFrameNavigation example_manager 0 example_options example_wait_env) =
     Throws (TimeoutError ''Navigation timeout of 500 ms exceeded'')"
    using wait_example by simp
  moreover have "fst (navigateFrame example_manager 0 ''http://a/'' example_options
      example_navigate_env) = Returns (Response 7)"
    using navigate_example by simp
  ultimately show ?thesis by blast
qed

text \<open>
  Claim C2. When the next-navigation watchdog wins the race of \<^verbatim>\<open>waitForFrameNavigation\<close>
  (it settles with no error, and no armed timer runs out before it) and the navigation
  it yields has an empty identifier, the call returns \<^verbatim>\<open>null\<close>; its effects are the
  timer (when armed), the next-navigation watchdog and its disposal, and
  \<^verbatim>\<open>clearTimeout\<close> last. The only watchdog constructed is the next-navigation one, and
  no timer stays set.
\<close>

theorem wait_same_document:
  assumes "normalizeWaitUntil (option_waitUntil opts) = Inr ws"
    and "nextNavigationDog_promise env = Settles None"
    and "option_timeout s opts = 0 \<or> \<not> timer_before_nextNavigationDog env"
    and "falsy (navigationId (nextNavigationDog_navigation env))"
  shows "waitForFrameNavigation s frame opts env =
           (Returns Null,
            snd (arm_timer env (option_timeout s opts)) @
              [Create (NextNavigationWatchdog frame), Dispose (NextNavigationWatchdog frame),
               ClearTimeout (fst (arm_timer env (option_timeout s opts)))])
         \<and> filter is_Create (snd (waitForFrameNavigation s frame opts env)) =
             [Create (NextNavigationWatchdog frame)]
         \<and> pending_timers (snd (waitForFrameNavigation s frame opts env)) {} = {}"
proof -
  have r: "race (fst (arm_timer env (option_timeout s opts)))
             (new_timeoutError (option_timeout s opts))
             (timer_before_nextNavigationDog env) (nextNavigationDog_promise env) = Some None"
    using assms(2,3) by (auto simp: race_def arm_timer_def)
  have w: "waitForFrameNavigation s frame opts env =
           (Returns Null,
            snd (arm_timer env (option_timeout s opts)) @
              [Create (NextNavigationWatchdog frame), Dispose (NextNavigationWatchdog frame),
               ClearTimeout (fst (arm_timer env (option_timeout s opts)))])"
    using assms(1,4) r by (simp add: waitForFrameNavigation_def Let_def case_prod_beta)
  show ?thesis
    unfolding w by (simp add: arm_timer_def)
qed

theorem wait_same_document_witness:
  "waitForFrameNavigation example_manager 0 example_options
     (example_wait_env\<lparr>nextNavigationDog_navigation := \<lparr>navigationId = None, url = None\<rparr>\<rparr>) =
     (Returns Null,
      [SetTimeout 1 500, Create (NextNavigationWatchdog 0), Dispose (NextNavigationWatchdog 0),
       ClearTimeout (Some 1)])
   \<and> filter is_Create (snd (waitForFrameNavigation example_manager 0 example_options
        (example_wait_env\<lparr>nextNavigationDog_navigation := \<lparr>navigationId = None, url = None\<rparr>\<rparr>))) =
       [Create (NextNavigationWatchdog 0)]
   \<and> pending_timers (snd (waitForFrameNavigation example_manager 0 example_options
        (example_wait_env\<lparr>nextNavigationDog_navigation := \<lparr>navigationId = None, url = None\<rparr>\<rparr>)))
       {} = {}"
  using wait_same_document [of example_options "[''load'']"
      "example_wait_env\<lparr>nextNavigationDog_navigation := \<lparr>navigationId = None, url = None\<rparr>\<rparr>"
      example_manager 0]
  by (simp add: example_defs)

text \<open>
  Claim C3. When the response to the navigate command of \<^verbatim>\<open>navigateFrame\<close> carries an
  empty navigation identifier, the call returns \<^verbatim>\<open>undefined\<close> and its only effect is
  the command: no timer is set and no watchdog is constructed.
\<close>

theorem navigate_no_navigation:
  assumes "normalizeWaitUntil (option_waitUntil opts) = Inr ws"
    and "send_navigate nenv = Settles (Inr navId)"
    and "falsy navId"
  shows "navigateFrame s frame target opts nenv =
           (Returns Undefined,
            [SendPageNavigate (frameId (frameData s frame)) (referer opts) target])
         \<and> filter is_SetTimeout (snd (navigateFrame s frame target opts nenv)) = []
         \<and> filter is_Create (snd (navigateFrame s frame target opts nenv)) = []"
  using assms by (simp add: navigateFrame_def)

theorem navigate_no_navigation_witness:
  "navigateFrame example_manager 0 ''http://a/'' example_options
     (example_navigate_env\<lparr>send_navigate := Settles (Inr (Some []))\<rparr>) =
     (Returns Undefined, [SendPageNavigate ''main'' None ''http://a/''])
   \<and> filter is_SetTimeout (snd (navigateFrame example_manager 0 ''http://a/'' example_options
        (example_navigate_env\<lparr>send_navigate := Settles (Inr (Some []))\<rparr>))) = []
   \<and> filter is_Create (snd (navigateFrame example_manager 0 ''http://a/'' example_options
        (example_navigate_env\<lparr>send_navigate := Settles (Inr (Some []))\<rparr>))) = []"
  using navigate_no_navigation [of example_options "[''load'']"
      "example_navigate_env\<lparr>send_navigate := Settles (Inr (Some []))\<rparr>" "Some []"
      example_manager 0 "''http://a/''"]
  by (simp add: example_defs example_manager_eq)

lemma await_watchDog_timers:
  "filter is_SetTimeout (snd (await_watchDog env timeoutId timeoutError d tr)) =
     filter is_SetTimeout tr"
  by (simp add: await_watchDog_def Let_def split: option.splits)

lemma wait_timers:
  assumes "normalizeWaitUntil (option_waitUntil opts) = Inr ws"
  shows "filter is_SetTimeout (snd (waitForFrameNavigation s frame opts env)) =
           (if option_timeout s opts \<noteq> 0
            then [SetTimeout (timer_handle env) (option_timeout s opts)] else [])"
  using assms
  by (auto simp: waitForFrameNavigation_def Let_def arm_timer_def await_watchDog_timers
        split: option.splits)

lemma navigate_timers:
  assumes "normalizeWaitUntil (option_waitUntil opts) = Inr ws"
  shows "filter is_SetTimeout (snd (navigateFrame s frame target opts nenv)) =
           (if option_timeout s opts \<noteq> 0 \<and>
               (\<exists>navId. send_navigate nenv = Settles (Inr navId) \<and> \<not> falsy navId)
            then [SetTimeout (timer_handle nenv) (option_timeout s opts)] else [])"
  using assms
  by (auto simp: navigateFrame_def Let_def arm_timer_def await_watchDog_timers
        split: settle.splits sum.splits)

lemma digit_char_is_digit: "d < 10 \<Longrightarrow> is_digit (digit_char d)"
  by (simp add: is_digit_def digit_char_def)

lemma digit_char_value: "d < 10 \<Longrightarrow> (of_char (digit_char d) :: nat) - 48 = d"
  by (simp add: digit_char_def)

lemma digits_are_digits: "\<forall>c \<in> set (digits n). is_digit c"
proof (induction n rule: digits.induct)
  case (1 n)
  show ?case
  proof (cases "n < 10")
    case True
    then show ?thesis by (subst digits.simps) (simp add: digit_char_is_digit)
  next
    case False
    with "1" show ?thesis by (subst digits.simps) (simp add: digit_char_is_digit)
  qed
qed

lemma decimal_value_digits: "decimal_value (digits n) = n"
proof (induction n rule: digits.induct)
  case (1 n)
  show ?case
  proof (cases "n < 10")
    case True
    then show ?thesis
      by (subst digits.simps) (simp add: decimal_value_def digit_char_value)
  next
    case False
    with "1" have "decimal_value (digits (n div 10)) = n div 10" by simp
    with False show ?thesis
      by (subst digits.simps) (simp add: decimal_value_def digit_char_value)
  qed
qed

lemma numberToString_sign:
  "numberToString t = (if t < 0 then ''-'' else []) @ digits (nat \<bar>t\<bar>)"
  by (cases "t < 0") (simp_all add: numberToString_def abs_if)

lemma example_normalize:
  "normalizeWaitUntil (option_waitUntil (example_options\<lparr>timeout := v\<rparr>)) = Inr [''load'']"
  by (simp add: example_options_def option_waitUntil_def normalize_default)

lemma digits_500: "digits 500 = ''500''"
  by code_simp

text \<open>
  Claim C6, as the code has it. Let \<open>t\<close> be the timeout in force: the option, or what
  \<^verbatim>\<open>navigationTimeout()\<close> returns when the option is absent. The timers that
  \<^verbatim>\<open>waitForFrameNavigation\<close> sets are one timer of delay \<open>t\<close> when \<open>t\<close> is not zero and
  none when it is zero; \<^verbatim>\<open>navigateFrame\<close> sets the same, but only once the navigate
  command has answered with a non-empty identifier, so a command that never answers
  leaves the call pending with the command as its only effect. For \<open>t\<close> not zero and of
  magnitude at most \<open>2 ^ 53\<close>: if the timer runs out before the watchdog then awaited
  settles (in particular, if that watchdog never settles), the call throws the timeout
  error whose message is \<^verbatim>\<open>'Navigation timeout of '\<close>, then \<open>t\<close> as text, then
  \<^verbatim>\<open>' ms exceeded'\<close>. That text is a minus sign when \<open>t\<close> is negative followed by
  decimal digits that denote the magnitude of \<open>t\<close>.
\<close>

theorem timeout_error:
  assumes "normalizeWaitUntil (option_waitUntil opts) = Inr ws"
    and "t = (case timeout opts of None \<Rightarrow> navigationTimeout s | Some v \<Rightarrow> v)"
  shows "filter is_SetTimeout (snd (waitForFrameNavigation s frame opts env)) =
           (if t \<noteq> 0 then [SetTimeout (timer_handle env) t] else [])
       \<and> filter is_SetTimeout (snd (navigateFrame s frame target opts nenv)) =
           (if t \<noteq> 0 \<and> (\<exists>navId. send_navigate nenv = Settles (Inr navId) \<and> \<not> falsy navId)
            then [SetTimeout (timer_handle nenv) t] else [])
       \<and> (send_navigate nenv = Never \<longrightarrow>
            navigateFrame s frame target opts nenv =
              (Pending, [SendPageNavigate (frameId (frameData s frame)) (referer opts) target]))
       \<and> (t \<noteq> 0 \<and> \<bar>t\<bar> \<le> 2 ^ 53 \<longrightarrow>
           (timer_before_nextNavigationDog env \<or> nextNavigationDog_promise env = Never \<longrightarrow>
              fst (waitForFrameNavigation s frame opts env) =
                Throws (TimeoutError (''Navigation timeout of '' @ numberToString t @ '' ms exceeded'')))
         \<and> (\<not> timer_before_nextNavigationDog env \<and> nextNavigationDog_promise env = Settles None \<and>
              \<not> falsy (navigationId (nextNavigationDog_navigation env)) \<and>
              (timer_before_watchDog env \<or> watchDog_promise env = Never) \<longrightarrow>
              fst (waitForFrameNavigation s frame opts env) =
                Throws (TimeoutError (''Navigation timeout of '' @ numberToString t @ '' ms exceeded'')))
         \<and> (send_navigate nenv = Settles (Inr navId) \<and> \<not> falsy navId \<and>
              (timer_before_watchDog nenv \<or> watchDog_promise nenv = Never) \<longrightarrow>
              fst (navigateFrame s frame target opts nenv) =
                Throws (TimeoutError (''Navigation timeout of '' @ numberToString t @ '' ms exceeded''))))
       \<and> numberToString t = (if t < 0 then ''-'' else []) @ digits (nat \<bar>t\<bar>)
       \<and> (\<forall>c \<in> set (digits (nat \<bar>t\<bar>)). is_digit c)
       \<and> decimal_value (digits (nat \<bar>t\<bar>)) = nat \<bar>t\<bar>"
proof -
  have t: "option_timeout s opts = t"
    using assms(2) by (simp add: option_timeout_def)
  have timers_wait: "filter is_SetTimeout (snd (waitForFrameNavigation s frame opts env)) =
           (if t \<noteq> 0 then [SetTimeout (timer_handle env) t] else [])"
    using wait_timers [OF assms(1), of s frame env] t by simp
  have timers_navigate: "filter is_SetTimeout (snd (navigateFrame s frame target opts nenv)) =
           (if t \<noteq> 0 \<and> (\<exists>navId. send_navigate nenv = Settles (Inr navId) \<and> \<not> falsy navId)
            then [SetTimeout (timer_handle nenv) t] else [])"
    using navigate_timers [OF assms(1), of s frame target nenv] t by simp
  have pending: "send_navigate nenv = Never \<Longrightarrow>
            navigateFrame s frame target opts nenv =
              (Pending, [SendPageNavigate (frameId (frameData s frame)) (referer opts) target])"
    using assms(1) by (simp add: navigateFrame_def)
  have first: "t \<noteq> 0 \<Longrightarrow>
      timer_before_nextNavigationDog env \<or> nextNavigationDog_promise env = Never \<Longrightarrow>
      fst (waitForFrameNavigation s frame opts env) =
        Throws (TimeoutError (''Navigation timeout of '' @ numberToString t @ '' ms exceeded''))"
    using assms(1) t
    by (auto simp: waitForFrameNavigation_def Let_def race_def arm_timer_def new_timeoutError_def)
  have second: "t \<noteq> 0 \<Longrightarrow>
      \<not> timer_before_nextNavigationDog env \<and> nextNavigationDog_promise env = Settles None \<and>
        \<not> falsy (navigationId (nextNavigationDog_navigation env)) \<and>
        (timer_before_watchDog env \<or> watchDog_promise env = Never) \<Longrightarrow>
      fst (waitForFrameNavigation s frame opts env) =
        Throws (TimeoutError (''Navigation timeout of '' @ numberToString t @ '' ms exceeded''))"
    using assms(1) t
    by (simp add: waitForFrameNavigation_def Let_def race_def arm_timer_def
          await_watchDog_timeout) (simp add: new_timeoutError_def)
  have third: "t \<noteq> 0 \<Longrightarrow>
      send_navigate nenv = Settles (Inr navId) \<and> \<not> falsy navId \<and>
        (timer_before_watchDog nenv \<or> watchDog_promise nenv = Never) \<Longrightarrow>
      fst (navigateFrame s frame target opts nenv) =
        Throws (TimeoutError (''Navigation timeout of '' @ numberToString t @ '' ms exceeded''))"
    using assms(1) t
    by (simp add: navigateFrame_def Let_def arm_timer_def await_watchDog_timeout)
       (simp add: new_timeoutError_def)
  show ?thesis
  proof (intro conjI impI)
    show "filter is_SetTimeout (snd (waitForFrameNavigation s frame opts env)) =
           (if t \<noteq> 0 then [SetTimeout (timer_handle env) t] else [])"
      by (fact timers_wait)
  next
    show "filter is_SetTimeout (snd (navigateFrame s frame target opts nenv)) =
           (if t \<noteq> 0 \<and> (\<exists>navId. send_navigate nenv = Settles (Inr navId) \<and> \<not> falsy navId)
            then [SetTimeout (timer_handle nenv) t] else [])"
      by (fact timers_navigate)
  next
    assume "send_navigate nenv = Never"
    then show "navigateFrame s frame target opts nenv =
              (Pending, [SendPageNavigate (frameId (frameData s frame)) (referer opts) target])"
      by (rule pending)
  next
    assume "t \<noteq> 0 \<and> \<bar>t\<bar> \<le> 2 ^ 53"
      and "timer_before_nextNavigationDog env \<or> nextNavigationDog_promise env = Never"
    then show "fst (waitForFrameNavigation s frame opts env) =
        Throws (TimeoutError (''Navigation timeout of '' @ numberToString t @ '' ms exceeded''))"
      using first by simp
  next
    assume "t \<noteq> 0 \<and> \<bar>t\<bar> \<le> 2 ^ 53"
      and "\<not> timer_before_nextNavigationDog env \<and> nextNavigationDog_promise env = Settles None \<and>
        \<not> falsy (navigationId (nextNavigationDog_navigation env)) \<and>
        (timer_before_watchDog env \<or> watchDog_promise env = Never)"
    then show "fst (waitForFrameNavigation s frame opts env) =
        Throws (TimeoutError (''Navigation timeout of '' @ numberToString t @ '' ms exceeded''))"
      using second by simp
  next
    assume "t \<noteq> 0 \<and> \<bar>t\<bar> \<le> 2 ^ 53"
      and "send_navigate nenv = Settles (Inr navId) \<and> \<not> falsy navId \<and>
        (timer_before_watchDog nenv \<or> watchDog_promise nenv = Never)"
    then show "fst (navigateFrame s frame target opts nenv) =
        Throws (TimeoutError (''Navigation timeout of '' @ numberToString t @ '' ms exceeded''))"
      using third by simp
  next
    show "numberToString t = (if t < 0 then ''-'' else []) @ digits (nat \<bar>t\<bar>)"
      by (rule numberToString_sign)
  next
    show "\<forall>c \<in> set (digits (nat \<bar>t\<bar>)). is_digit c"
      by (rule digits_are_digits)
  next
    show "decimal_value (digits (nat \<bar>t\<bar>)) = nat \<bar>t\<bar>"
      by (rule decimal_value_digits)
  qed
qed

theorem timeout_error_witness:
  "filter is_SetTimeout (snd (waitForFrameNavigation example_manager 0
         (example_options\<lparr>timeout := Some 500\<rparr>) example_wait_env)) = [SetTimeout 1 500]
   \<and> filter is_SetTimeout (snd (navigateFrame example_manager 0 ''http://a/''
         (example_options\<lparr>timeout := Some 500\<rparr>) example_navigate_env)) = [SetTimeout 1 500]
   \<and> fst (waitForFrameNavigation example_manager 0 (example_options\<lparr>timeout := Some 500\<rparr>)
         (example_wait_env\<lparr>nextNavigationDog_promise := Never\<rparr>)) =
     Throws (TimeoutError ''Navigation timeout of 500 ms exceeded'')
   \<and> fst (waitForFrameNavigation example_manager 0 (example_options\<lparr>timeout := Some 500\<rparr>)
         example_wait_env) =
     Throws (TimeoutError ''Navigation timeout of 500 ms exceeded'')
   \<and> fst (navigateFrame example_manager 0 ''http://a/'' (example_options\<lparr>timeout := Some 500\<rparr>)
         (example_navigate_env\<lparr>watchDog_promise := Never\<rparr>)) =
     Throws (TimeoutError ''Navigation timeout of 500 ms exceeded'')
   \<and> navigateFrame example_manager 0 ''http://a/'' (example_options\<lparr>timeout := Some 500\<rparr>)
         (example_navigate_env\<lparr>send_navigate := Never\<rparr>) =
     (Pending, [SendPageNavigate ''main'' None ''http://a/''])
   \<and> filter is_SetTimeout (snd (navigateFrame example_manager 0 ''http://a/''
         (example_options\<lparr>timeout := Some 500\<rparr>)
         (example_navigate_env\<lparr>send_navigate := Never\<rparr>))) = []
   \<and> numberToString 500 = ''500'' \<and> decimal_value ''500'' = 500
   \<and> is_digit CHR ''5'' \<and> is_digit CHR ''0''
   \<and> filter is_SetTimeout (snd (waitForFrameNavigation example_manager 0
         (example_options\<lparr>timeout := Some 0\<rparr>) example_wait_env)) = []
   \<and> filter is_SetTimeout (snd (navigateFrame example_manager 0 ''http://a/''
         (example_options\<lparr>timeout := Some 0\<rparr>) example_navigate_env)) = []
   \<and> filter is_SetTimeout (snd (waitForFrameNavigation example_manager 0
         (example_options\<lparr>timeout := None\<rparr>) example_wait_env)) = [SetTimeout 1 30000]"
proof -
  have t500: "500 = (case timeout (example_options\<lparr>timeout := Some 500\<rparr>) of
                       None \<Rightarrow> navigationTimeout example_manager | Some v \<Rightarrow> v)"
    by simp
  have t0: "0 = (case timeout (example_options\<lparr>timeout := Some 0\<rparr>) of
                       None \<Rightarrow> navigationTimeout example_manager | Some v \<Rightarrow> v)"
    by simp
  have tdef: "30000 = (case timeout (example_options\<lparr>timeout := None\<rparr>) of
                       None \<Rightarrow> navigationTimeout example_manager | Some v \<Rightarrow> v)"
    by (simp add: example_manager_eq)
  note A = timeout_error [OF example_normalize t500, where env = example_wait_env
      and nenv = example_navigate_env and frame = 0 and target = "''http://a/''"
      and navId = "Some ''n1''"]
  note B = timeout_error [OF example_normalize t500,
      where env = "example_wait_env\<lparr>nextNavigationDog_promise := Never\<rparr>"
      and nenv = "example_navigate_env\<lparr>watchDog_promise := Never\<rparr>" and frame = 0
      and target = "''http://a/''" and navId = "Some ''n1''"]
  note C = timeout_error [OF example_normalize t500, where env = example_wait_env
      and nenv = "example_navigate_env\<lparr>send_navigate := Never\<rparr>" and frame = 0
      and target = "''http://a/''" and navId = None]
  note Z = timeout_error [OF example_normalize t0, where env = example_wait_env
      and nenv = example_navigate_env and frame = 0 and target = "''http://a/''" and navId = None]
  note D = timeout_error [OF example_normalize tdef, where env = example_wait_env
      and nenv = example_navigate_env and frame = 0 and target = "''http://a/''" and navId = None]
  have a1: "filter is_SetTimeout (snd (waitForFrameNavigation example_manager 0
         (example_options\<lparr>timeout := Some 500\<rparr>) example_wait_env)) = [SetTimeout 1 500]"
    using A [THEN conjunct1] by (simp add: example_wait_env_def)
  have a2: "filter is_SetTimeout (snd (navigateFrame example_manager 0 ''http://a/''
         (example_options\<lparr>timeout := Some 500\<rparr>) example_navigate_env)) = [SetTimeout 1 500]"
    using A [THEN conjunct2, THEN conjunct1] by (simp add: example_navigate_env_def falsy_def)
  have a4: "fst (waitForFrameNavigation example_manager 0 (example_options\<lparr>timeout := Some 500\<rparr>)
         example_wait_env) =
     Throws (TimeoutError ''Navigation timeout of 500 ms exceeded'')"
    using A [THEN conjunct2, THEN conjunct2, THEN conjunct2, THEN conjunct1]
    by (simp add: example_wait_env_def falsy_def numberToString_500)
  have a5: "numberToString 500 = ''500'' \<and> decimal_value ''500'' = 500
      \<and> is_digit CHR ''5'' \<and> is_digit CHR ''0''"
    using A [THEN conjunct2, THEN conjunct2, THEN conjunct2, THEN conjunct2]
    by (simp add: digits_500)
  have b1: "fst (waitForFrameNavigation example_manager 0 (example_options\<lparr>timeout := Some 500\<rparr>)
         (example_wait_env\<lparr>nextNavigationDog_promise := Never\<rparr>)) =
     Throws (TimeoutError ''Navigation timeout of 500 ms exceeded'')"
    using B [THEN conjunct2, THEN conjunct2, THEN conjunct2, THEN conjunct1]
    by (simp add: example_wait_env_def falsy_def numberToString_500)
  have b2: "fst (navigateFrame example_manager 0 ''http://a/'' (example_options\<lparr>timeout := Some 500\<rparr>)
         (example_navigate_env\<lparr>watchDog_promise := Never\<rparr>)) =
     Throws (TimeoutError ''Navigation timeout of 500 ms exceeded'')"
    using B [THEN conjunct2, THEN conjunct2, THEN conjunct2, THEN conjunct1]
    by (simp add: example_navigate_env_def falsy_def numberToString_500)
  have c1: "navigateFrame example_manager 0 ''http://a/'' (example_options\<lparr>timeout := Some 500\<rparr>)
         (example_navigate_env\<lparr>send_navigate := Never\<rparr>) =
     (Pending, [SendPageNavigate ''main'' None ''http://a/''])"
    using C [THEN conjunct2, THEN conjunct2, THEN conjunct1]
    by (simp add: example_navigate_env_def example_options_def frameData_def example_manager_eq)
  have c2: "filter is_SetTimeout (snd (navigateFrame example_manager 0 ''http://a/''
         (example_options\<lparr>timeout := Some 500\<rparr>)
         (example_navigate_env\<lparr>send_navigate := Never\<rparr>))) = []"
    using C [THEN conjunct2, THEN conjunct1] by (simp add: example_navigate_env_def)
  have z1: "filter is_SetTimeout (snd (waitForFrameNavigation example_manager 0
         (example_options\<lparr>timeout := Some 0\<rparr>) example_wait_env)) = []"
    using Z [THEN conjunct1] by simp
  have z2: "filter is_SetTimeout (snd (navigateFrame example_manager 0 ''http://a/''
         (example_options\<lparr>timeout := Some 0\<rparr>) example_navigate_env)) = []"
    using Z [THEN conjunct2, THEN conjunct1] by simp
  have d1: "filter is_SetTimeout (snd (waitForFrameNavigation example_manager 0
         (example_options\<lparr>timeout := None\<rparr>) example_wait_env)) = [SetTimeout 1 30000]"
    using D [THEN conjunct1] by (simp add: example_wait_env_def)
  from a1 a2 a4 a5 b1 b2 c1 c2 z1 z2 d1 show ?thesis by blast
qed

text \<open>
  The claim C6 as it is worded fails in two places. For \<^verbatim>\<open>navigateFrame\<close>: with a
  timeout of 500 ms and a navigate command that never answers, the call is never
  resolved, and yet it does not fail with a timeout error; it stays pending and has set
  no timer. For an absent timeout: with the default of 30000 ms in force,
  \<^verbatim>\<open>waitForFrameNavigation\<close> called without a timeout option does set a timer, of
  30000 ms.
\<close>

theorem timeout_error_counterexample:
  "timeout example_options = Some 500
   \<and> fst (navigateFrame example_manager 0 ''http://a/'' example_options
         (example_navigate_env\<lparr>send_navigate := Never\<rparr>)) = Pending
   \<and> fst (navigateFrame example_manager 0 ''http://a/'' example_options
         (example_navigate_env\<lparr>send_navigate := Never\<rparr>)) \<noteq>
       Throws (TimeoutError ''Navigation timeout of 500 ms exceeded'')
   \<and> filter is_SetTimeout (snd (navigateFrame example_manager 0 ''http://a/'' example_options
         (example_navigate_env\<lparr>send_navigate := Never\<rparr>))) = []
   \<and> timeout (example_options\<lparr>timeout := None\<rparr>) = None
   \<and> filter is_SetTimeout (snd (waitForFrameNavigation example_manager 0
         (example_options\<lparr>timeout := None\<rparr>) example_wait_env)) = [SetTimeout 1 30000]"
proof -
  have n: "navigateFrame example_manager 0 ''http://a/'' example_options
         (example_navigate_env\<lparr>send_navigate := Never\<rparr>) =
       (Pending, [SendPageNavigate ''main'' None ''http://a/''])"
    by (simp add: navigateFrame_def example_defs example_manager_eq)
  have w: "snd (waitForFrameNavigation example_manager 0
         (example_options\<lparr>timeout := None\<rparr>) example_wait_env) =
      [SetTimeout 1 30000, Create (NextNavigationWatchdog 0), Dispose (NextNavigationWatchdog 0),
       Create (NavigationWatchdog 0 ''n1'' (Some ''http://a/'') [''load'']),
       Dispose (NavigationWatchdog 0 ''n1'' (Some ''http://a/'') [''load'']),
       ClearTimeout (Some 1)]"
    by (simp add: waitForFrameNavigation_def example_defs example_manager_eq)
  show ?thesis
    unfolding n w by (simp add: example_options_def)
qed

text \<open>
  Claim C10. \<^verbatim>\<open>normalizeWaitUntil\<close> returns the empty list for the empty list. With
  \<^verbatim>\<open>waitUntil: []\<close>, \<^verbatim>\<open>waitForFrameNavigation\<close> goes on to construct its next-navigation
  watchdog and \<^verbatim>\<open>navigateFrame\<close> to send its command, and the watchdog that either one
  constructs for an identified navigation is given the empty list of conditions.
\<close>

theorem empty_waitUntil_accepted:
  "normalizeWaitUntil (Tokens []) = Inr []
   \<and> (waitUntil opts = Some (Tokens []) \<longrightarrow>
        Create (NextNavigationWatchdog frame) \<in> set (snd (waitForFrameNavigation s frame opts env)) \<and>
        SendPageNavigate (frameId (frameData s frame)) (referer opts) target
          \<in> set (snd (navigateFrame s frame target opts nenv)) \<and>
        (race (fst (arm_timer env (option_timeout s opts))) (new_timeoutError (option_timeout s opts))
           (timer_before_nextNavigationDog env) (nextNavigationDog_promise env) = Some None \<and>
         \<not> falsy (navigationId (nextNavigationDog_navigation env)) \<longrightarrow>
           Create (NavigationWatchdog frame (the (navigationId (nextNavigationDog_navigation env)))
                     (url (nextNavigationDog_navigation env)) [])
             \<in> set (snd (waitForFrameNavigation s frame opts env))) \<and>
        (send_navigate nenv = Settles (Inr navId) \<and> \<not> falsy navId \<longrightarrow>
           Create (NavigationWatchdog frame (the navId) (Some target) [])
             \<in> set (snd (navigateFrame s frame target opts nenv))))"
proof (intro conjI impI)
  show "normalizeWaitUntil (Tokens []) = Inr []" by (simp add: normalizeWaitUntil_def)
next
  assume "waitUntil opts = Some (Tokens [])"
  then have n: "normalizeWaitUntil (option_waitUntil opts) = Inr []"
    by (simp add: option_waitUntil_def normalizeWaitUntil_def)
  show "Create (NextNavigationWatchdog frame) \<in> set (snd (waitForFrameNavigation s frame opts env))"
    using n await_watchDog_prefix [of env "fst (arm_timer env (option_timeout s opts))"
        "new_timeoutError (option_timeout s opts)"
        "NavigationWatchdog frame (the (navigationId (nextNavigationDog_navigation env)))
           (url (nextNavigationDog_navigation env)) []"
        "snd (arm_timer env (option_timeout s opts)) @
           [Create (NextNavigationWatchdog frame), Dispose (NextNavigationWatchdog frame)]"]
    by (auto simp: waitForFrameNavigation_def Let_def case_prod_beta split: option.splits)
next
  assume "waitUntil opts = Some (Tokens [])"
  then have n: "normalizeWaitUntil (option_waitUntil opts) = Inr []"
    by (simp add: option_waitUntil_def normalizeWaitUntil_def)
  show "SendPageNavigate (frameId (frameData s frame)) (referer opts) target
          \<in> set (snd (navigateFrame s frame target opts nenv))"
  proof (cases "send_navigate nenv")
    case Never
    then show ?thesis using n by (simp add: navigateFrame_def)
  next
    case (Settles r)
    show ?thesis
    proof (cases r)
      case (Inl e)
      then show ?thesis using n Settles by (simp add: navigateFrame_def)
    next
      case (Inr navId)
      obtain tl where "snd (await_watchDog nenv (fst (arm_timer nenv (option_timeout s opts)))
          (new_timeoutError (option_timeout s opts))
          (NavigationWatchdog frame (the navId) (Some target) [])
          ([SendPageNavigate (frameId (frameData s frame)) (referer opts) target] @
             snd (arm_timer nenv (option_timeout s opts))))
         = ([SendPageNavigate (frameId (frameData s frame)) (referer opts) target] @
             snd (arm_timer nenv (option_timeout s opts))) @
             Create (NavigationWatchdog frame (the navId) (Some target) []) # tl"
        using await_watchDog_prefix by blast
      then show ?thesis using n Settles Inr
        by (simp add: navigateFrame_def Let_def case_prod_beta)
    qed
  qed
next
  assume "waitUntil opts = Some (Tokens [])"
  then have n: "normalizeWaitUntil (option_waitUntil opts) = Inr []"
    by (simp add: option_waitUntil_def normalizeWaitUntil_def)
  assume "race (fst (arm_timer env (option_timeout s opts))) (new_timeoutError (option_timeout s opts))
           (timer_before_nextNavigationDog env) (nextNavigationDog_promise env) = Some None \<and>
         \<not> falsy (navigationId (nextNavigationDog_navigation env))"
  then show "Create (NavigationWatchdog frame (the (navigationId (nextNavigationDog_navigation env)))
                     (url (nextNavigationDog_navigation env)) [])
             \<in> set (snd (waitForFrameNavigation s frame opts env))"
    using n by (simp add: waitForFrameNavigation_def Let_def await_watchDog_creates case_prod_beta)
next
  assume "waitUntil opts = Some (Tokens [])"
  then have n: "normalizeWaitUntil (option_waitUntil opts) = Inr []"
    by (simp add: option_waitUntil_def normalizeWaitUntil_def)
  assume "send_navigate nenv = Settles (Inr navId) \<and> \<not> falsy navId"
  then show "Create (NavigationWatchdog frame (the navId) (Some target) [])
             \<in> set (snd (navigateFrame s frame target opts nenv))"
    using n by (simp add: navigateFrame_def Let_def await_watchDog_creates case_prod_beta)
qed

theorem empty_waitUntil_accepted_witness:
  "normalizeWaitUntil (Tokens []) = Inr []
   \<and> Create (NextNavigationWatchdog 0) \<in> set (snd (waitForFrameNavigation example_manager 0
        (example_options\<lparr>waitUntil := Some (Tokens [])\<rparr>) example_wait_env))
   \<and> SendPageNavigate ''main'' None ''http://a/'' \<in> set (snd (navigateFrame example_manager 0
        ''http://a/'' (example_options\<lparr>waitUntil := Some (Tokens [])\<rparr>) example_navigate_env))
   \<and> Create (NavigationWatchdog 0 ''n1'' (Some ''http://a/'') [])
       \<in> set (snd (waitForFrameNavigation example_manager 0
        (example_options\<lparr>waitUntil := Some (Tokens [])\<rparr>) example_wait_env))
   \<and> Create (NavigationWatchdog 0 ''n1'' (Some ''http://a/'') [])
       \<in> set (snd (navigateFrame example_manager 0
        ''http://a/'' (example_options\<lparr>waitUntil := Some (Tokens [])\<rparr>) example_navigate_env))"
  using empty_waitUntil_accepted [of "example_options\<lparr>waitUntil := Some (Tokens [])\<rparr>" 0
      example_manager example_wait_env "''http://a/''" example_navigate_env "Some ''n1''"]
  by (simp add: example_options_def example_wait_env_def example_navigate_env_def
        option_timeout_def arm_timer_def race_def falsy_def frameData_def example_manager_eq)

section \<open>Properties of the event handlers\<close>

lemma delete_absent:
  "frames s fid = None \<Longrightarrow> s\<lparr>frames := (frames s)(fid := None)\<rparr> = s"
  by (simp add: fun_upd_idem)

lemma new_FrameManager_empty:
  "frames (new_FrameManager t) fid = None \<and> mainFrame (new_FrameManager t) = None \<and>
   next_ref (new_FrameManager t) = 0 \<and> emitted (new_FrameManager t) = [] \<and>
   contextIdToContext (new_FrameManager t) ctxId = None"
  by (simp add: new_FrameManager_def)

text \<open>
  Claim C4. A frame-attached notification whose parent identifier is absent or names no
  known frame: with no main frame yet, the handler succeeds, the new frame (at the next
  free address, with no parent and the notified identifier) becomes the main frame, is
  registered under its identifier and announced by \<open>FrameAttached\<close>; with a main frame
  already there, the handler throws the assertion's error, and the main frame, the
  identifier map and the emitted events are as before.
\<close>

theorem attach_main_frame:
  assumes "(case parentFrameId of None \<Rightarrow> None | Some p \<Rightarrow> frames s p) = None"
  shows "(mainFrame s = None \<longrightarrow>
            fst (onFrameAttached fid parentFrameId s) = None \<and>
            mainFrame (snd (onFrameAttached fid parentFrameId s)) = Some (next_ref s) \<and>
            frames (snd (onFrameAttached fid parentFrameId s)) = (frames s)(fid \<mapsto> next_ref s) \<and>
            parentFrame (store (snd (onFrameAttached fid parentFrameId s)) (next_ref s)) = None \<and>
            frameId (frameData (snd (onFrameAttached fid parentFrameId s)) (next_ref s)) = fid \<and>
            emitted (snd (onFrameAttached fid parentFrameId s)) =
              emitted s @ [FrameAttached (next_ref s)])
       \<and> (mainFrame s \<noteq> None \<longrightarrow>
            fst (onFrameAttached fid parentFrameId s) =
              Some (Error ''INTERNAL ERROR: re-attaching main frame!'') \<and>
            mainFrame (snd (onFrameAttached fid parentFrameId s)) = mainFrame s \<and>
            frames (snd (onFrameAttached fid parentFrameId s)) = frames s \<and>
            emitted (snd (onFrameAttached fid parentFrameId s)) = emitted s)"
  using assms
  by (auto simp: onFrameAttached_def new_Frame_def assert_def emit_def frameData_def Let_def)

theorem attach_main_frame_witness:
  "fst (onFrameAttached ''main'' None (new_FrameManager 30000)) = None
   \<and> mainFrame (snd (onFrameAttached ''main'' None (new_FrameManager 30000))) = Some 0
   \<and> frames (snd (onFrameAttached ''main'' None (new_FrameManager 30000))) ''main'' = Some 0
   \<and> emitted (snd (onFrameAttached ''main'' None (new_FrameManager 30000))) = [FrameAttached 0]
   \<and> fst (onFrameAttached ''other'' (Some ''gone'') example_manager) =
       Some (Error ''INTERNAL ERROR: re-attaching main frame!'')
   \<and> mainFrame (snd (onFrameAttached ''other'' (Some ''gone'') example_manager)) = Some 0
   \<and> frames (snd (onFrameAttached ''other'' (Some ''gone'') example_manager)) ''other'' = None
   \<and> emitted (snd (onFrameAttached ''other'' (Some ''gone'') example_manager)) =
       [FrameAttached 0, FrameAttached 1]"
  using attach_main_frame [where parentFrameId = None and s = "new_FrameManager 30000"
      and fid = "''main''"]
    attach_main_frame [where parentFrameId = "Some ''gone''" and s = example_manager
      and fid = "''other''"]
  by (simp add: new_FrameManager_empty) (simp add: example_manager_eq)

text \<open>
  Claim C7. An event-fired notification for a known frame succeeds and adds the
  lowercased name to that frame's fired events; the events it emits are exactly: one
  \<open>Load\<close> when the frame is the main frame and the name as notified is \<^verbatim>\<open>load\<close>, one
  \<open>DOMContentLoaded\<close> when the frame is the main frame and the name as notified is
  \<^verbatim>\<open>DOMContentLoaded\<close>, and none otherwise, in particular none for another frame.
\<close>

theorem event_fired:
  assumes "frames s fid = Some frame"
  shows "fst (onEventFired fid n s) = None
       \<and> firedEvents (frameData (snd (onEventFired fid n s)) frame) =
           insert (toLowerCase n) (firedEvents (frameData s frame))
       \<and> emitted (snd (onEventFired fid n s)) =
           emitted s @
             (if mainFrame s = Some frame \<and> n = ''load'' then [Load]
              else if mainFrame s = Some frame \<and> n = ''DOMContentLoaded'' then [DOMContentLoaded]
              else [])"
  using assms
  by (auto simp: onEventFired_def update_frame_def emit_def frameData_def Let_def)

theorem event_fired_witness:
  "firedEvents (frameData (snd (onEventFired ''main'' ''load'' example_manager)) 0) = {''load''}
   \<and> emitted (snd (onEventFired ''main'' ''load'' example_manager)) =
       [FrameAttached 0, FrameAttached 1, Load]
   \<and> firedEvents (frameData (snd (onEventFired ''main'' ''DOMContentLoaded'' example_manager)) 0) =
       {''domcontentloaded''}
   \<and> emitted (snd (onEventFired ''main'' ''DOMContentLoaded'' example_manager)) =
       [FrameAttached 0, FrameAttached 1, DOMContentLoaded]
   \<and> firedEvents (frameData (snd (onEventFired ''child'' ''load'' example_manager)) 1) = {''load''}
   \<and> emitted (snd (onEventFired ''child'' ''load'' example_manager)) =
       [FrameAttached 0, FrameAttached 1]"
  using event_fired [where s = example_manager and fid = "''main''" and frame = 0 and n = "''load''"]
    event_fired [where s = example_manager and fid = "''main''" and frame = 0
      and n = "''DOMContentLoaded''"]
    event_fired [where s = example_manager and fid = "''child''" and frame = 1 and n = "''load''"]
  by (simp add: example_manager_eq frameData_def toLowerCase_load toLowerCase_DOMContentLoaded)

text \<open>
  Claim C8. A frame-detached notification for a known frame succeeds, deletes the entry
  of that identifier from the identifier map and no other (every other identifier,
  a descendant's included, maps to what it mapped to), marks the frame detached and
  emits \<open>FrameDetached\<close> for it.
\<close>

theorem frame_detached:
  assumes "frames s fid = Some frame"
  shows "fst (onFrameDetached fid s) = None
       \<and> frames (snd (onFrameDetached fid s)) = (frames s)(fid := None)
       \<and> (\<forall>other. other \<noteq> fid \<longrightarrow> frames (snd (onFrameDetached fid s)) other = frames s other)
       \<and> detached (store (snd (onFrameDetached fid s)) frame)
       \<and> emitted (snd (onFrameDetached fid s)) = emitted s @ [FrameDetached frame]"
  using assms
  by (auto simp: onFrameDetached_def frame_detach_def update_frame_def emit_def Let_def)

theorem frame_detached_witness:
  "fst (onFrameDetached ''main'' example_manager) = None
   \<and> frames (snd (onFrameDetached ''main'' example_manager)) ''main'' = None
   \<and> frames (snd (onFrameDetached ''main'' example_manager)) ''child'' = Some 1
   \<and> parentFrame (store example_manager 1) = Some 0
   \<and> detached (store (snd (onFrameDetached ''main'' example_manager)) 0)
   \<and> emitted (snd (onFrameDetached ''main'' example_manager)) =
       [FrameAttached 0, FrameAttached 1, FrameDetached 0]"
  using frame_detached [where s = example_manager and fid = "''main''" and frame = 0]
  by (simp add: example_manager_eq)

text \<open>
  Claim C9. For a frame identifier that is not in the identifier map, the handlers of
  navigation-committed, same-document-navigation, event-fired and frame-detached throw
  a \<open>TypeError\<close> (and leave the manager as it was); the context-destroyed handler, for a
  context identifier that is not registered, returns normally and changes nothing.
\<close>

theorem unknown_frame_throws:
  "(frames s fid = None \<longrightarrow>
      onNavigationCommitted fid u n navId s = (Some TypeError, s) \<and>
      onSameDocumentNavigation fid u s = (Some TypeError, s) \<and>
      onEventFired fid n s = (Some TypeError, s) \<and>
      onFrameDetached fid s = (Some TypeError, s))
   \<and> (contextIdToContext s ctxId = None \<longrightarrow> onExecutionContextDestroyed ctxId s = (None, s))"
  by (auto simp: onNavigationCommitted_def onSameDocumentNavigation_def onEventFired_def
        onFrameDetached_def onExecutionContextDestroyed_def Let_def delete_absent)

theorem unknown_frame_throws_witness:
  "onNavigationCommitted ''ghost'' ''http://a/'' ''f'' ''n1'' example_manager =
     (Some TypeError, example_manager)
   \<and> onSameDocumentNavigation ''ghost'' ''http://a/'' example_manager =
     (Some TypeError, example_manager)
   \<and> onEventFired ''ghost'' ''f'' example_manager = (Some TypeError, example_manager)
   \<and> onFrameDetached ''ghost'' example_manager = (Some TypeError, example_manager)
   \<and> onExecutionContextDestroyed ''c9'' example_manager = (None, example_manager)"
proof -
  have f: "frames example_manager ''ghost'' = None"
    by (simp add: example_manager_eq)
  have c: "contextIdToContext example_manager ''c9'' = None"
    by (simp add: example_manager_eq)
  from unknown_frame_throws [where s = example_manager and fid = "''ghost''" and u = "''http://a/''"
      and n = "''f''" and navId = "''n1''" and ctxId = "''c9''"]
    f c
  show ?thesis by blast
qed

end
